theory Spec2Isabelle
  imports Complex_Main
begin

section \<open>SleepDriver: the EAR estimator and the drowsiness state machine\<close>

text \<open>
  A shallow embedding of \<^verbatim>\<open>src/sleep_detector.py\<close>: the function
  \<^verbatim>\<open>calculate_ear\<close> and the detection logic inside the \<^verbatim>\<open>while\<close> loop of
  \<^verbatim>\<open>main\<close> (the variables \<^verbatim>\<open>COUNTER\<close>, \<^verbatim>\<open>ALARM_ON\<close> and
  \<^verbatim>\<open>ear_history\<close>, the branch on \<^verbatim>\<open>results.multi_face_landmarks\<close>, and the
  handling of the keys \<^verbatim>\<open>q\<close>, \<^verbatim>\<open>d\<close> and \<^verbatim>\<open>r\<close>).

  Python's floats are modelled as the real numbers: every comparison and every
  arithmetic operation of the source is the exact one here, so rounding is outside this
  model. Python's unbounded integers are \<open>int\<close>.
\<close>

subsection \<open>Landmarks and the EAR estimator\<close>

text \<open>
  A MediaPipe landmark has the attributes \<^verbatim>\<open>x\<close>, \<^verbatim>\<open>y\<close> and \<^verbatim>\<open>z\<close>; the
  fields carry the prefix \<open>lm_\<close> so that \<open>x\<close> and \<open>y\<close> stay usable as variables.
\<close>

record landmark =
  lm_x :: real
  lm_y :: real
  lm_z :: real

datatype py_error = ValueError | ZeroDivisionError

text \<open>
  \<^verbatim>\<open>np.mean\<close> of a list: the sum divided by the number of elements. (On an empty
  list numpy returns \<^verbatim>\<open>nan\<close> with a warning and does not raise; \<^verbatim>\<open>calculate_ear\<close>
  calls it on two slices of eight elements only.)
\<close>

definition np_mean :: "real list \<Rightarrow> real" where
  "np_mean vs = sum_list vs / real (length vs)"

text \<open>Python's \<^verbatim>\<open>max\<close> and \<^verbatim>\<open>min\<close> of a list raise \<^verbatim>\<open>ValueError\<close> on an empty one.\<close>

definition py_max :: "real list \<Rightarrow> py_error + real" where
  "py_max vs = (case vs of [] \<Rightarrow> Inl ValueError | v # ws \<Rightarrow> Inr (fold max ws v))"

definition py_min :: "real list \<Rightarrow> py_error + real" where
  "py_min vs = (case vs of [] \<Rightarrow> Inl ValueError | v # ws \<Rightarrow> Inr (fold min ws v))"

text \<open>Division: a zero divisor is an error value of the model.\<close>

definition py_div :: "real \<Rightarrow> real \<Rightarrow> py_error + real" where
  "py_div a b = (if b = 0 then Inl ZeroDivisionError else Inr (a / b))"

text \<open>
  \<^verbatim>\<open>calculate_ear(eye_landmarks)\<close>, lines 88 to 133. The slices
  \<^verbatim>\<open>eye_landmarks[:8]\<close> and \<^verbatim>\<open>eye_landmarks[8:]\<close> are \<open>take 8\<close> and \<open>drop 8\<close>.
\<close>

definition calculate_ear :: "landmark list \<Rightarrow> py_error + real" where
  "calculate_ear eye_landmarks =
     (if length eye_landmarks \<noteq> 16 then Inr 0
      else
        let upper_landmarks = take 8 eye_landmarks;
            lower_landmarks = drop 8 eye_landmarks;
            upper_y = np_mean (map lm_y upper_landmarks);
            lower_y = np_mean (map lm_y lower_landmarks)
        in case py_max (map lm_x eye_landmarks) of
             Inl e \<Rightarrow> Inl e
           | Inr mx \<Rightarrow>
               (case py_min (map lm_x eye_landmarks) of
                  Inl e \<Rightarrow> Inl e
                | Inr mn \<Rightarrow>
                    let eye_width = \<bar>mx - mn\<bar>;
                        eye_height = \<bar>upper_y - lower_y\<bar>
                    in if eye_width > 0 then py_div eye_height eye_width else Inr 0))"

subsection \<open>The detection state and one processed frame\<close>

text \<open>
  The command-line arguments the detection logic reads: \<^verbatim>\<open>args.ear\<close>,
  \<^verbatim>\<open>args.frames\<close>, \<^verbatim>\<open>args.silent\<close> and \<^verbatim>\<open>args.log\<close>.
\<close>

record args =
  args_ear :: real
  args_frames :: int
  args_silent :: bool
  args_log :: bool

text \<open>The three local variables of \<^verbatim>\<open>main\<close> that carry state from frame to frame.\<close>

record detector =
  COUNTER :: int
  ALARM_ON :: bool
  ear_history :: "real list"

text \<open>The values at lines 185 to 189, before the loop starts.\<close>

definition initial :: detector where
  "initial = \<lparr>COUNTER = 0, ALARM_ON = False, ear_history = []\<rparr>"

text \<open>
  What one frame shows and does. \<open>Awake\<close> and \<open>Drowsy\<close> are the two values of
  \<^verbatim>\<open>status_text\<close> (\<^verbatim>\<open>"Status: Awake"\<close> and \<^verbatim>\<open>"Status: DROWSY!"\<close>). The
  actions are the calls of \<^verbatim>\<open>play_alarm\<close> and \<^verbatim>\<open>log_drowsiness_event\<close>. The
  source has no event object: \<open>TurnedOn\<close> marks the frame that executes
  \<^verbatim>\<open>ALARM_ON = True\<close> (line 308, reached only when \<^verbatim>\<open>ALARM_ON\<close> was false), and
  \<open>TurnedOff\<close> marks the frame that executes \<^verbatim>\<open>ALARM_ON = False\<close> (line 333) when
  \<^verbatim>\<open>ALARM_ON\<close> was true.
\<close>

datatype status = Awake | Drowsy

datatype action = PlayAlarm | LogDrowsinessEvent

datatype transition = NoTransition | TurnedOn | TurnedOff

record frame_out =
  status_text :: status
  alarm_transition :: transition
  actions :: "action list"

text \<open>Lines 310 to 316: what the frame that switches the alarm on calls.\<close>

definition alarm_actions :: "args \<Rightarrow> action list" where
  "alarm_actions a =
     (if \<not> args_silent a then [PlayAlarm] else []) @
     (if args_log a then [LogDrowsinessEvent] else [])"

text \<open>
  Lines 283 to 285: \<^verbatim>\<open>ear_history.append(ear)\<close>, then \<^verbatim>\<open>ear_history.pop(0)\<close> when
  the list has more than five elements.
\<close>

definition push_history :: "real list \<Rightarrow> real \<Rightarrow> real list" where
  "push_history h e = (let h' = h @ [e] in if length h' > 5 then tl h' else h')"

text \<open>Line 288: \<^verbatim>\<open>sum(ear_history) / len(ear_history)\<close>, on the list after the append.\<close>

definition smoothed :: "real list \<Rightarrow> py_error + real" where
  "smoothed h = py_div (sum_list h) (real (length h))"

text \<open>
  Lines 230 to 342, the detection part of one loop iteration. \<open>face_detected\<close> is the
  truth value of \<^verbatim>\<open>results.multi_face_landmarks\<close>, and \<open>ear\<close> is the average of the
  two eyes' ratios (line 279), which the source computes, and this function reads, only
  when a face was detected. The drawing calls are left out. The result is an error when
  the division of line 288 fails.
\<close>

definition process_frame ::
  "args \<Rightarrow> detector \<Rightarrow> real \<Rightarrow> bool \<Rightarrow> py_error + (detector \<times> frame_out)" where
  "process_frame a s ear face_detected =
     (if face_detected then
        let h = push_history (ear_history s) ear;
            s1 = s\<lparr>ear_history := h\<rparr>
        in case smoothed h of
             Inl e \<Rightarrow> Inl e
           | Inr smoothed_ear \<Rightarrow>
               if smoothed_ear < args_ear a then
                 let s2 = s1\<lparr>COUNTER := COUNTER s1 + 1\<rparr>
                 in if COUNTER s2 \<ge> args_frames a then
                      if \<not> ALARM_ON s2 then
                        Inr (s2\<lparr>ALARM_ON := True\<rparr>,
                             \<lparr>status_text = Drowsy, alarm_transition = TurnedOn,
                              actions = alarm_actions a\<rparr>)
                      else
                        Inr (s2, \<lparr>status_text = Drowsy, alarm_transition = NoTransition,
                                  actions = []\<rparr>)
                    else
                      Inr (s2, \<lparr>status_text = Awake, alarm_transition = NoTransition,
                                actions = []\<rparr>)
               else if smoothed_ear > args_ear a + 0.02 then
                 let s2 = s1\<lparr>COUNTER := max 0 (COUNTER s1 - 1)\<rparr>
                 in if COUNTER s2 = 0 then
                      Inr (s2\<lparr>ALARM_ON := False\<rparr>,
                           \<lparr>status_text = Awake,
                            alarm_transition = (if ALARM_ON s2 then TurnedOff else NoTransition),
                            actions = []\<rparr>)
                    else
                      Inr (s2, \<lparr>status_text = Awake, alarm_transition = NoTransition,
                                actions = []\<rparr>)
               else
                 Inr (s1, \<lparr>status_text = Awake, alarm_transition = NoTransition,
                           actions = []\<rparr>)
      else
        Inr (s\<lparr>COUNTER := max 0 (COUNTER s - 1)\<rparr>,
             \<lparr>status_text = Awake, alarm_transition = NoTransition, actions = []\<rparr>))"

subsection \<open>Keys and the main loop\<close>

text \<open>
  Lines 374 to 378, the \<^verbatim>\<open>r\<close> key: \<^verbatim>\<open>COUNTER = 0\<close> and \<^verbatim>\<open>ear_history = []\<close>.
  \<^verbatim>\<open>ALARM_ON\<close> is not assigned.
\<close>

definition reset :: "detector \<Rightarrow> detector" where
  "reset s = s\<lparr>COUNTER := 0, ear_history := []\<rparr>"

text \<open>
  The key read by \<^verbatim>\<open>cv2.waitKey\<close> at the end of an iteration: \<^verbatim>\<open>q\<close> leaves the
  loop, \<^verbatim>\<open>d\<close> toggles the debug display (no detection state), \<^verbatim>\<open>r\<close> resets.
\<close>

datatype key = NoKey | KeyQ | KeyD | KeyR

definition handle_key :: "key \<Rightarrow> detector \<Rightarrow> detector" where
  "handle_key k s = (if k = KeyR then reset s else s)"

text \<open>
  The loop over the frames that the camera delivers, each with its combined EAR, its
  face flag and the key pressed after it. The loop ends with the input or at \<^verbatim>\<open>q\<close>.
  It returns the final state and what each processed frame showed.
\<close>

fun main_loop ::
  "args \<Rightarrow> detector \<Rightarrow> (real \<times> bool \<times> key) list \<Rightarrow> py_error + (detector \<times> frame_out list)" where
  "main_loop a s [] = Inr (s, [])"
| "main_loop a s ((ear, face_detected, k) # rest) =
     (case process_frame a s ear face_detected of
        Inl e \<Rightarrow> Inl e
      | Inr (s', out) \<Rightarrow>
          if k = KeyQ then Inr (s', [out])
          else (case main_loop a (handle_key k s') rest of
                  Inl e \<Rightarrow> Inl e
                | Inr (s'', outs) \<Rightarrow> Inr (s'', out # outs)))"

subsection \<open>Reference configuration and helper notions\<close>

text \<open>
  The configuration of the end-to-end scenario: threshold 0.22 and 25 frames (the
  values of \<^verbatim>\<open>EYE_AR_THRESHOLD\<close> and \<^verbatim>\<open>EYE_AR_CONSEC_FRAMES\<close> in
  \<^verbatim>\<open>config.py\<close>; the defaults of \<^verbatim>\<open>--ear\<close> and \<^verbatim>\<open>--frames\<close> are 0.17 and
  20), sound on, logging off (\<^verbatim>\<open>ENABLE_LOGGING = False\<close>).
\<close>

definition scenario_args :: args where
  "scenario_args =
     \<lparr>args_ear = 0.22, args_frames = 25, args_silent = False, args_log = False\<rparr>"


text \<open>
  The frames of the scenario: \<open>n\<close> frames with a face and a combined EAR of 0.10,
  or of 0.40, and no key pressed.
\<close>

definition closed_frames :: "nat \<Rightarrow> (real \<times> bool \<times> key) list" where
  "closed_frames n = replicate n (0.10, True, NoKey)"

definition open_frames :: "nat \<Rightarrow> (real \<times> bool \<times> key) list" where
  "open_frames n = replicate n (0.40, True, NoKey)"

text \<open>A frame that shows a status, changes no alarm flag and calls nothing.\<close>

definition quiet :: "status \<Rightarrow> frame_out" where
  "quiet st = \<lparr>status_text = st, alarm_transition = NoTransition, actions = []\<rparr>"

text \<open>
  The state of the scenario after 30 frames of 0.10 and 2 frames of 0.40 (see
  \<open>latched_state_reached\<close> below): the alarm is on and the counter is at 31.
\<close>

definition latched_state :: detector where
  "latched_state =
     \<lparr>COUNTER = 31, ALARM_ON = True, ear_history = [0.1, 0.1, 0.1, 0.4, 0.4]\<rparr>"

text \<open>A configuration that raises the alarm after two frames, with logging on.\<close>

definition quick_args :: args where
  "quick_args =
     \<lparr>args_ear = 0.22, args_frames = 2, args_silent = False, args_log = True\<rparr>"


definition degenerate_eye :: "landmark list" where
  "degenerate_eye =
     replicate 8 \<lparr>lm_x = 0.3, lm_y = 0.4, lm_z = 0\<rparr> @
     replicate 8 \<lparr>lm_x = 0.3, lm_y = 0.5, lm_z = 0\<rparr>"

lemmas eval_defs = process_frame_def push_history_def smoothed_def py_div_def Let_def
  alarm_actions_def handle_key_def reset_def initial_def scenario_args_def
  closed_frames_def open_frames_def quiet_def latched_state_def quick_args_def

section \<open>Basic facts\<close>

lemma push_history_not_Nil: "push_history h e \<noteq> []"
  by (cases h) (simp_all add: push_history_def Let_def)

lemma push_history_fifo:
  "length h \<le> 5 \<Longrightarrow>
   push_history h e = (if length h < 5 then h @ [e] else tl h @ [e])"
  by (cases h) (simp_all add: push_history_def Let_def)

lemma length_push_history: "length h \<le> 5 \<Longrightarrow> length (push_history h e) \<le> 5"
  by (simp add: push_history_fifo)

text \<open>The division of line 288 never fails: the window holds the value just appended.\<close>

lemma smoothed_push_history:
  "smoothed (push_history h e) =
   Inr (sum_list (push_history h e) / real (length (push_history h e)))"
  using push_history_not_Nil [of h e] by (simp add: smoothed_def py_div_def)

lemma process_frame_returns:
  "\<exists>s' out. process_frame a s ear face_detected = Inr (s', out)"
  by (simp add: process_frame_def Let_def smoothed_push_history)


text \<open>
  A non-negative counter and a window of at most 5 values are kept by every frame and
  every key, so they hold in every state the loop reaches from \<open>initial\<close>.
\<close>

lemma process_frame_invariant:
  assumes "process_frame a s ear face_detected = Inr (s', out)"
    and "0 \<le> COUNTER s" and "length (ear_history s) \<le> 5"
  shows "0 \<le> COUNTER s' \<and> length (ear_history s') \<le> 5"
  using assms length_push_history [OF assms(3), of ear]
  by (auto simp add: process_frame_def Let_def smoothed_push_history split: if_splits)

lemma handle_key_invariant:
  "0 \<le> COUNTER s \<Longrightarrow> length (ear_history s) \<le> 5 \<Longrightarrow>
   0 \<le> COUNTER (handle_key k s) \<and> length (ear_history (handle_key k s)) \<le> 5"
  by (simp add: handle_key_def reset_def)

lemma main_loop_invariant:
  "main_loop a s ins = Inr (s', outs) \<Longrightarrow>
   0 \<le> COUNTER s \<Longrightarrow> length (ear_history s) \<le> 5 \<Longrightarrow>
   0 \<le> COUNTER s' \<and> length (ear_history s') \<le> 5"
proof (induction ins arbitrary: s s' outs)
  case Nil
  then show ?case by simp
next
  case (Cons i ins)
  obtain ear face k where i: "i = (ear, face, k)" by (cases i)
  obtain s1 out where pf: "process_frame a s ear face = Inr (s1, out)"
    using process_frame_returns by blast
  note inv1 = process_frame_invariant [OF pf Cons.prems(2,3)]
  show ?case
  proof (cases "k = KeyQ")
    case True
    with Cons.prems(1) have "s' = s1" by (simp add: i pf)
    with inv1 show ?thesis by simp
  next
    case False
    with Cons.prems(1) obtain outs2 where "main_loop a (handle_key k s1) ins = Inr (s', outs2)"
      by (auto simp add: i pf split: sum.splits)
    then show ?thesis
      using Cons.IH handle_key_invariant inv1 by blast
  qed
qed

text \<open>The state \<open>latched_state\<close> is the one the scenario reaches after 32 frames.\<close>

lemma latched_state_reached:
  "main_loop scenario_args initial (closed_frames 30 @ open_frames 2) =
     Inr (latched_state,
          replicate 24 (quiet Awake) @
          [\<lparr>status_text = Drowsy, alarm_transition = TurnedOn, actions = [PlayAlarm]\<rparr>] @
          replicate 6 (quiet Drowsy) @ [quiet Awake])"
  by (simp add: eval_defs numeral_eq_Suc)

text \<open>
  On a non-empty list \<^verbatim>\<open>max\<close> and \<^verbatim>\<open>min\<close> return the greatest and the least
  element.
\<close>

lemma py_max_Max: "vs \<noteq> [] \<Longrightarrow> py_max vs = Inr (Max (set vs))"
proof (cases vs)
  case (Cons v ws)
  then show ?thesis using Max.set_eq_fold [of v ws] by (simp add: py_max_def)
qed simp

lemma py_min_Min: "vs \<noteq> [] \<Longrightarrow> py_min vs = Inr (Min (set vs))"
proof (cases vs)
  case (Cons v ws)
  then show ?thesis using Min.set_eq_fold [of v ws] by (simp add: py_min_def)
qed simp


section \<open>Reset\<close>

text \<open>
  C1, as the code has it: \<open>reset\<close>, which is what the \<^verbatim>\<open>r\<close> key does, clears the
  smoothing window and sets the counter to 0 whatever the prior state, changes nothing
  else (\<open>ALARM_ON\<close> keeps its value), and a second reset changes nothing more.
\<close>

theorem reset_clears_counters:
  "COUNTER (reset s) = 0 \<and> ear_history (reset s) = [] \<and>
   ALARM_ON (reset s) = ALARM_ON s \<and> reset (reset s) = reset s \<and>
   handle_key KeyR s = reset s"
  by (simp add: reset_def handle_key_def)

text \<open>
  C1 as stated fails: a reset while the alarm is on leaves \<open>ALARM_ON\<close> true, at
  \<open>latched_state\<close> and in the run of the loop that presses \<^verbatim>\<open>r\<close> after 30 frames of
  0.10 and 2 frames of 0.40.
\<close>

theorem reset_keeps_alarm_counterexample:
  "reset latched_state = \<lparr>COUNTER = 0, ALARM_ON = True, ear_history = []\<rparr> \<and>
   main_loop scenario_args initial
       (closed_frames 30 @ [(0.4, True, NoKey), (0.4, True, KeyR)]) =
     Inr (\<lparr>COUNTER = 0, ALARM_ON = True, ear_history = []\<rparr>,
          replicate 24 (quiet Awake) @
          [\<lparr>status_text = Drowsy, alarm_transition = TurnedOn, actions = [PlayAlarm]\<rparr>] @
          replicate 6 (quiet Drowsy) @ [quiet Awake])"
  by (simp add: eval_defs numeral_eq_Suc)

section \<open>One frame\<close>






text \<open>
  C8: a frame without a face sets the counter to \<open>max 0 (COUNTER - 1)\<close>: 0 stays 0, a
  positive counter loses exactly 1, a non-negative counter never grows. The EAR value
  and the arguments are not read: any other value and any other threshold give the same
  result.
\<close>

theorem no_face_decay:
  "\<exists>s' out.
     process_frame a s ear False = Inr (s', out) \<and>
     COUNTER s' = max 0 (COUNTER s - 1) \<and>
     (COUNTER s = 0 \<longrightarrow> COUNTER s' = 0) \<and>
     (0 < COUNTER s \<longrightarrow> COUNTER s' = COUNTER s - 1) \<and>
     (0 \<le> COUNTER s \<longrightarrow> COUNTER s' \<le> COUNTER s) \<and>
     process_frame a' s ear' False = Inr (s', out)"
  by (simp add: process_frame_def)

theorem no_face_decay_witness:
  "0 < COUNTER latched_state \<and>
   process_frame scenario_args latched_state 0.05 False =
     Inr (\<lparr>COUNTER = 30, ALARM_ON = True, ear_history = [0.1, 0.1, 0.1, 0.4, 0.4]\<rparr>,
          quiet Awake) \<and>
   COUNTER initial = 0 \<and>
   process_frame scenario_args initial 0.05 False = Inr (initial, quiet Awake)"
  using no_face_decay [of scenario_args latched_state "0.05"]
    no_face_decay [of scenario_args initial "0.05"]
  by (simp add: eval_defs)



text \<open>
  C9, as the code has it: from a state with a non-negative counter and a window of at
  most 5 values (the initial state is one), a frame leaves the counter non-negative and
  within 1 of its previous value (plus 1 on a frame coded as closed, minus 1 floored at
  0 on a frame coded as opening or without a face), and leaves a window of at most 5
  values, the new value appended and the oldest dropped when there were 5 already. A
  reset sets the counter to 0, whatever it was, and empties the window.
\<close>

theorem counter_and_window_bounds:
  assumes "0 \<le> COUNTER s" and "length (ear_history s) \<le> 5"
  shows "\<exists>m s' out.
     smoothed (push_history (ear_history s) ear) = Inr m \<and>
     process_frame a s ear face_detected = Inr (s', out) \<and>
     0 \<le> COUNTER s' \<and> \<bar>COUNTER s' - COUNTER s\<bar> \<le> 1 \<and>
     (face_detected \<and> m < args_ear a \<longrightarrow> COUNTER s' = COUNTER s + 1) \<and>
     (\<not> face_detected \<or> args_ear a + 0.02 < m \<longrightarrow>
        COUNTER s' = max 0 (COUNTER s - 1)) \<and>
     length (ear_history s') \<le> 5 \<and>
     (face_detected \<longrightarrow> ear_history s' =
        (if length (ear_history s) < 5 then ear_history s @ [ear]
         else tl (ear_history s) @ [ear])) \<and>
     COUNTER (reset s) = 0 \<and> ear_history (reset s) = [] \<and>
     0 \<le> COUNTER initial \<and> length (ear_history initial) \<le> 5"
proof -
  note h = push_history_fifo [OF assms(2), of ear] length_push_history [OF assms(2), of ear]
  show ?thesis
    using assms h(2)
    by (auto simp add: process_frame_def Let_def smoothed_push_history reset_def
        initial_def h(1) [symmetric])
qed

theorem counter_and_window_bounds_witness:
  "0 \<le> COUNTER latched_state \<and> length (ear_history latched_state) \<le> 5 \<and>
   process_frame scenario_args latched_state 0.4 True =
     Inr (\<lparr>COUNTER = 30, ALARM_ON = True, ear_history = [0.1, 0.1, 0.4, 0.4, 0.4]\<rparr>,
          quiet Awake) \<and>
   process_frame scenario_args latched_state 0.05 True =
     Inr (\<lparr>COUNTER = 32, ALARM_ON = True, ear_history = [0.1, 0.1, 0.4, 0.4, 0.05]\<rparr>,
          quiet Drowsy)"
  using counter_and_window_bounds [of latched_state "0.4" scenario_args True]
    counter_and_window_bounds [of latched_state "0.05" scenario_args True]
  by (simp add: eval_defs)

text \<open>
  C9 as stated fails for the reset: at \<open>latched_state\<close> it takes the counter from 31 to
  0. And a frame coded as opening does not take 1 from a counter that is 0: in the
  initial state a frame of 0.4 leaves it at 0.
\<close>

theorem counter_jump_counterexample:
  "COUNTER latched_state = 31 \<and> COUNTER (reset latched_state) = 0 \<and>
   \<not> \<bar>COUNTER (reset latched_state) - COUNTER latched_state\<bar> \<le> 1 \<and>
   process_frame scenario_args initial 0.4 True =
     Inr (\<lparr>COUNTER = 0, ALARM_ON = False, ear_history = [0.4]\<rparr>, quiet Awake)"
  by (simp add: eval_defs)

section \<open>The alarm latch\<close>








section \<open>The end-to-end scenario\<close>

text \<open>
  C3, as the code has it, with threshold 0.22 and 25 required frames, from the initial
  state. After 24 frames of 0.10 the counter is 24 and every frame showed \<open>Awake\<close>;
  frame 25 takes the counter to 25, switches the alarm on and shows \<open>Drowsy\<close>.
  After 30 frames the counter is 30 and the alarm is on: frame 25 is the only one with
  \<open>TurnedOn\<close>, and frames 25 to 30 show \<open>Drowsy\<close>. One
  frame of 0.40 then gives a window mean of 0.16, still below the threshold: the
  counter goes up to 31 and the frame shows \<open>Drowsy\<close>. With further frames of 0.40 the
  status is \<open>Awake\<close> from the second one on, while the alarm flag stays on: after 32
  such frames the counter is 1 and the flag still on, and frame 33 of them brings the
  counter to 0 and is the only one with \<open>TurnedOff\<close>.
\<close>

theorem scenario:
  "main_loop scenario_args initial (closed_frames 24) =
     Inr (\<lparr>COUNTER = 24, ALARM_ON = False, ear_history = replicate 5 0.1\<rparr>,
          replicate 24 (quiet Awake)) \<and>
   main_loop scenario_args initial (closed_frames 25) =
     Inr (\<lparr>COUNTER = 25, ALARM_ON = True, ear_history = replicate 5 0.1\<rparr>,
          replicate 24 (quiet Awake) @
          [\<lparr>status_text = Drowsy, alarm_transition = TurnedOn, actions = [PlayAlarm]\<rparr>]) \<and>
   main_loop scenario_args initial (closed_frames 30) =
     Inr (\<lparr>COUNTER = 30, ALARM_ON = True, ear_history = replicate 5 0.1\<rparr>,
          replicate 24 (quiet Awake) @
          [\<lparr>status_text = Drowsy, alarm_transition = TurnedOn, actions = [PlayAlarm]\<rparr>] @
          replicate 5 (quiet Drowsy)) \<and>
   main_loop scenario_args initial (closed_frames 30 @ open_frames 1) =
     Inr (\<lparr>COUNTER = 31, ALARM_ON = True, ear_history = [0.1, 0.1, 0.1, 0.1, 0.4]\<rparr>,
          replicate 24 (quiet Awake) @
          [\<lparr>status_text = Drowsy, alarm_transition = TurnedOn, actions = [PlayAlarm]\<rparr>] @
          replicate 6 (quiet Drowsy)) \<and>
   main_loop scenario_args initial (closed_frames 30 @ open_frames 32) =
     Inr (\<lparr>COUNTER = 1, ALARM_ON = True, ear_history = replicate 5 0.4\<rparr>,
          replicate 24 (quiet Awake) @
          [\<lparr>status_text = Drowsy, alarm_transition = TurnedOn, actions = [PlayAlarm]\<rparr>] @
          replicate 6 (quiet Drowsy) @ replicate 31 (quiet Awake)) \<and>
   main_loop scenario_args initial (closed_frames 30 @ open_frames 33) =
     Inr (\<lparr>COUNTER = 0, ALARM_ON = False, ear_history = replicate 5 0.4\<rparr>,
          replicate 24 (quiet Awake) @
          [\<lparr>status_text = Drowsy, alarm_transition = TurnedOn, actions = [PlayAlarm]\<rparr>] @
          replicate 6 (quiet Drowsy) @ replicate 31 (quiet Awake) @
          [\<lparr>status_text = Awake, alarm_transition = TurnedOff, actions = []\<rparr>])"
  by (simp add: eval_defs numeral_eq_Suc)

text \<open>
  C3 as stated fails: the frame of 0.40 after the 30 frames of 0.10 takes the counter
  from 30 up to 31, and two more frames of 0.40 show \<open>Awake\<close> while the counter is at
  31 and then at 30, with no \<open>TurnedOff\<close>.
\<close>

theorem scenario_counterexample:
  "main_loop scenario_args initial (closed_frames 30 @ open_frames 1) =
     Inr (\<lparr>COUNTER = 31, ALARM_ON = True, ear_history = [0.1, 0.1, 0.1, 0.1, 0.4]\<rparr>,
          replicate 24 (quiet Awake) @
          [\<lparr>status_text = Drowsy, alarm_transition = TurnedOn, actions = [PlayAlarm]\<rparr>] @
          replicate 6 (quiet Drowsy)) \<and>
   main_loop scenario_args initial (closed_frames 30 @ open_frames 3) =
     Inr (\<lparr>COUNTER = 30, ALARM_ON = True, ear_history = [0.1, 0.1, 0.4, 0.4, 0.4]\<rparr>,
          replicate 24 (quiet Awake) @
          [\<lparr>status_text = Drowsy, alarm_transition = TurnedOn, actions = [PlayAlarm]\<rparr>] @
          replicate 6 (quiet Drowsy) @ [quiet Awake, quiet Awake])"
  by (simp add: eval_defs numeral_eq_Suc)

section \<open>The EAR estimator\<close>



text \<open>
  C6: \<open>calculate_ear\<close> returns a value on every list of landmarks, so neither
  \<^verbatim>\<open>max\<close> nor \<^verbatim>\<open>min\<close> sees an empty list and the division never sees a zero eye
  width. The value is 0 when the list does not have 16 landmarks, and when it has 16
  that all share one \<open>x\<close>.
\<close>

theorem calculate_ear_never_raises:
  "(\<exists>r. calculate_ear lms = Inr r) \<and>
   (length lms \<noteq> 16 \<longrightarrow> calculate_ear lms = Inr 0) \<and>
   (length lms = 16 \<and> (\<forall>l \<in> set lms. lm_x l = c) \<longrightarrow> calculate_ear lms = Inr 0)"
proof (cases "length lms = 16")
  case False
  then show ?thesis by (simp add: calculate_ear_def)
next
  case True
  then have ne: "map lm_x lms \<noteq> []" by auto
  have "\<exists>r. calculate_ear lms = Inr r"
    using True
    by (simp add: calculate_ear_def Let_def py_max_Max [OF ne] py_min_Min [OF ne] py_div_def)
  moreover have "calculate_ear lms = Inr 0" if "\<forall>l \<in> set lms. lm_x l = c"
  proof -
    from ne obtain l where "l \<in> set lms" by (cases lms) auto
    with that have "lm_x ` set lms = {c}" by force
    then show ?thesis
      using True
      by (simp add: calculate_ear_def Let_def py_max_Max [OF ne] py_min_Min [OF ne])
  qed
  ultimately show ?thesis using True by blast
qed

theorem calculate_ear_never_raises_witness:
  "length ([] :: landmark list) \<noteq> 16 \<and> calculate_ear [] = Inr 0 \<and>
   length degenerate_eye = 16 \<and> lm_x ` set degenerate_eye = {0.3} \<and>
   calculate_ear degenerate_eye = Inr 0"
  using calculate_ear_never_raises [of "[]"] calculate_ear_never_raises [of degenerate_eye "0.3"]
  by (simp add: degenerate_eye_def)

end
